theory Spec2Isabelle
  imports Main "HOL-Library.Sublist"
begin

section \<open>Errors\<close>

text \<open>
  The exceptions that the methods of \<open>Process\<close> in
  \<open>managers/process_memory_manager.py\<close> can raise. \<open>ValueError\<close> is what
  \<open>int(offset, 16)\<close> raises on a string that is no hexadecimal literal,
  \<open>Exception msg\<close> is the plain \<open>Exception\<close> raised by \<open>get_by_name\<close>,
  \<open>OSError code\<close> stands for an error raised by a call into the operating system
  (a \<open>pywintypes.error\<close> or any exception of a collaborator), \<open>AttributeError name\<close>
  is what \<open>delattr\<close> raises when the instance has no such attribute, and
  \<open>TypeError\<close> is what a call raises on an argument \<open>None\<close> where a number is needed.
\<close>

datatype error =
    ValueError
  | Exception string
  | OSError nat
  | AttributeError string
  | TypeError

section \<open>Offsets and \<open>int(offset, 16)\<close>\<close>

text \<open>
  An element of the list \<open>offsets\<close> is a Python \<open>int\<close> or a \<open>str\<close>
  (\<open>isinstance(offset, str)\<close> decides which).
\<close>

datatype offset = IntOffset int | StrOffset string

text \<open>
  \<open>int(s, 16)\<close> on an ASCII string: white space on both sides is dropped, then an
  optional sign, an optional prefix \<open>0x\<close> or \<open>0X\<close> (after which one underscore may
  stand), then hexadecimal digits, where single underscores may stand between two digits.
  Anything else raises \<open>ValueError\<close>.
\<close>

definition py_isspace :: "char \<Rightarrow> bool" where
  "py_isspace c \<longleftrightarrow> c \<in> set [CHR 0x09, CHR 0x0A, CHR 0x0B, CHR 0x0C, CHR 0x0D, CHR 0x20]"

definition hex_digit :: "char \<Rightarrow> int option" where
  "hex_digit c =
     (let n = (of_char c :: nat) in
      if 48 \<le> n \<and> n \<le> 57 then Some (int n - 48)
      else if 97 \<le> n \<and> n \<le> 102 then Some (int n - 87)
      else if 65 \<le> n \<and> n \<le> 70 then Some (int n - 55)
      else None)"

text \<open>
  The digit loop: \<open>prev\<close> tells whether the character before was an underscore. It stops
  at the first character that is neither a digit nor an underscore and returns the value
  and the rest; two underscores in a row and an underscore at the end are refused.
\<close>

fun hex_run :: "bool \<Rightarrow> int \<Rightarrow> string \<Rightarrow> (int \<times> string) option" where
  "hex_run prev acc [] = (if prev then None else Some (acc, []))"
| "hex_run prev acc (c # cs) =
     (if c = CHR ''_'' then (if prev then None else hex_run True acc cs)
      else case hex_digit c of
             Some d \<Rightarrow> hex_run False (16 * acc + d) cs
           | None \<Rightarrow> if prev then None else Some (acc, c # cs))"

definition strip_sign :: "string \<Rightarrow> bool \<times> string" where
  "strip_sign s =
     (case s of
        c # cs \<Rightarrow> if c = CHR ''+'' then (False, cs)
                  else if c = CHR ''-'' then (True, cs)
                  else (False, s)
      | [] \<Rightarrow> (False, s))"

definition strip_prefix16 :: "string \<Rightarrow> string" where
  "strip_prefix16 s =
     (case s of
        a # b # cs \<Rightarrow>
          if a = CHR ''0'' \<and> (b = CHR ''x'' \<or> b = CHR ''X'')
          then (case cs of c # ds \<Rightarrow> if c = CHR ''_'' then ds else cs | [] \<Rightarrow> cs)
          else s
      | _ \<Rightarrow> s)"

definition int_base16 :: "string \<Rightarrow> int option" where
  "int_base16 s =
     (let (neg, t) = strip_sign (dropWhile py_isspace s);
          u = strip_prefix16 t
      in case u of
           [] \<Rightarrow> None
         | c # _ \<Rightarrow>
             if hex_digit c = None then None
             else (case hex_run False 0 u of
                     None \<Rightarrow> None
                   | Some (n, rest) \<Rightarrow>
                       if list_all py_isspace rest
                       then Some (if neg then - n else n)
                       else None))"

text \<open>Lines 61 to 62 of the source: a string offset is converted, an integer is kept.\<close>

definition to_int :: "offset \<Rightarrow> error + int" where
  "to_int off =
     (case off of
        IntOffset n \<Rightarrow> Inr n
      | StrOffset s \<Rightarrow> (case int_base16 s of None \<Rightarrow> Inl ValueError | Some n \<Rightarrow> Inr n))"

section \<open>\<open>Process.read_memory\<close>\<close>

text \<open>
  The memory of the target process, as \<open>ReadProcessMemory\<close> sees it through the process
  handle: \<open>mem a n\<close> is the unsigned value of the \<open>n\<close> bytes at address \<open>a\<close>, or
  \<open>None\<close> when the call fails (invalid handle, unmapped address).
\<close>

type_synonym memory = "int \<Rightarrow> nat \<Rightarrow> int option"

text \<open>
  One call of \<open>ReadProcessMemory\<close> into the buffer \<open>data\<close> (a \<open>c_ubyte\<close> or a
  \<open>c_uint\<close>, so its value is unsigned and below \<open>2 ^ (8 * n)\<close>). The source does not
  look at the value the call returns: when the call fails, the buffer keeps what it held.
  The result is \<open>data.value\<close> after the call.
\<close>

definition ReadProcessMemory :: "memory \<Rightarrow> int \<Rightarrow> nat \<Rightarrow> int \<Rightarrow> int" where
  "ReadProcessMemory mem a n data =
     (case mem a n of None \<Rightarrow> data | Some v \<Rightarrow> v mod 2 ^ (8 * n))"

text \<open>\<open>ctypes.sizeof(data)\<close>: one byte for \<open>c_ubyte\<close>, four for \<open>c_uint\<close>.\<close>

definition sizeof_data :: "bool \<Rightarrow> nat" where
  "sizeof_data byte = (if byte then 1 else 4)"

text \<open>
  The loop of lines 59 to 69, with the list of the addresses read so far (the last one
  at the end) carried along: the offset is converted first, then the read at
  \<open>current_address\<close> is done, then \<open>current_address = data.value + offset\<close>.
\<close>

fun read_chain ::
  "memory \<Rightarrow> nat \<Rightarrow> offset list \<Rightarrow> int \<Rightarrow> int \<Rightarrow> int list \<Rightarrow> (error + int \<times> int) \<times> int list"
where
  "read_chain mem n [] current_address data reads = (Inr (current_address, data), reads)"
| "read_chain mem n (off # offs) current_address data reads =
     (case to_int off of
        Inl e \<Rightarrow> (Inl e, reads)
      | Inr k \<Rightarrow>
          (let data' = ReadProcessMemory mem current_address n data
           in read_chain mem n offs (data' + k) data' (reads @ [current_address])))"

text \<open>
  \<open>read_memory(address, offsets, byte)\<close>; \<open>offsets = None\<close> is the default. The result
  is what the call returns or raises, and the addresses it has read, in order.
  \<open>if offsets:\<close> is false for \<open>None\<close> and for the empty list.
\<close>

definition read_memory ::
  "memory \<Rightarrow> int \<Rightarrow> offset list option \<Rightarrow> bool \<Rightarrow> (error + int \<times> int) \<times> int list"
where
  "read_memory mem address offsets byte =
     (let n = sizeof_data byte; data = 0; current_address = address
      in case offsets of
           Some (off # offs) \<Rightarrow> read_chain mem n (off # offs) current_address data []
         | _ \<Rightarrow>
             (Inr (current_address, ReadProcessMemory mem current_address n data),
              [current_address]))"

section \<open>Calls into the operating system\<close>


section \<open>The \<open>Process\<close> object\<close>

text \<open>
  The attributes set by \<open>__init__\<close>, and the two \<open>functools.cached_property\<close>
  values used for the window: such a value is in the instance once the property has been
  read (\<open>Some\<close>), and \<open>delattr\<close> removes it again.
\<close>

record process =
  process_id :: int
  process_name :: string
  base_address :: int
  window_name :: string
  last_window_handle :: "int option"
  last_window_thread_id :: "int option"
  cached_window_handle :: "int option"
  cached_thread_id :: "int option"

definition init_process :: "int \<Rightarrow> string \<Rightarrow> string \<Rightarrow> int \<Rightarrow> process" where
  "init_process pid pname wname base =
     \<lparr>process_id = pid, process_name = pname, base_address = base, window_name = wname,
      last_window_handle = None, last_window_thread_id = None,
      cached_window_handle = None, cached_thread_id = None\<rparr>"

section \<open>Strings: \<open>casefold\<close> and \<open>in\<close>\<close>




section \<open>\<open>Process.get_by_name\<close>\<close>













section \<open>\<open>Process.kill_by_name\<close>\<close>





section \<open>The desktop: windows, focus, keys\<close>

text \<open>
  The calls that \<open>focus\<close> and \<open>focus_back_to_last_window\<close> make, as they are logged.
  \<open>PressAndRelease key\<close> is the call of \<open>Manager.press_and_release\<close>, a collaborator
  from \<open>managers/loop_manager\<close>: a call that returns or raises, like a call into the
  operating system. \<open>Sleep\<close> is \<open>time.sleep(0.1)\<close>.
\<close>

datatype event =
    FindWindow string
  | GetWindowThreadProcessId int
  | PressAndRelease string
  | AttachThreadInput int int bool
  | SetForegroundWindow "int option"
  | Sleep

text \<open>
  The state of the operating system: the foreground window (\<open>GetForegroundWindow\<close>),
  the id of the calling thread (\<open>GetCurrentThreadId\<close>), the window that \<open>FindWindow\<close>
  finds for a title, the thread that owns a window, what the next calls that can raise
  will do, one entry for each (\<open>None\<close>: the call returns, \<open>Some c\<close>: it raises error
  \<open>c\<close>; after the end of the list every call returns), and the log of the calls made.
\<close>

record os =
  foreground :: int
  current_thread :: int
  window_of :: "string \<Rightarrow> int"
  thread_of :: "int \<Rightarrow> int"
  outcomes :: "nat option list"
  calls :: "event list"

definition os_call :: "event \<Rightarrow> os \<Rightarrow> nat option \<times> os" where
  "os_call ev w =
     (case outcomes w of
        [] \<Rightarrow> (None, w\<lparr>calls := calls w @ [ev]\<rparr>)
      | r # rs \<Rightarrow> (r, w\<lparr>outcomes := rs, calls := calls w @ [ev]\<rparr>))"

text \<open>
  The cached property \<open>window_handle\<close>: \<open>FindWindow\<close> is called when no value is
  cached. It returns the handle of the window with the title, \<open>0\<close> when there is none,
  and is taken not to raise.
\<close>

definition window_handle :: "process \<Rightarrow> os \<Rightarrow> int \<times> process \<times> os" where
  "window_handle p w =
     (case cached_window_handle p of
        Some h \<Rightarrow> (h, p, w)
      | None \<Rightarrow>
          (let h = window_of w (window_name p)
           in (h, p\<lparr>cached_window_handle := Some h\<rparr>,
               w\<lparr>calls := calls w @ [FindWindow (window_name p)]\<rparr>)))"

text \<open>
  The cached property \<open>thread_id\<close>: \<open>GetWindowThreadProcessId(self.window_handle)[0]\<close>
  when no value is cached; the value is cached only when the call returns.
\<close>

definition thread_id :: "process \<Rightarrow> os \<Rightarrow> (error + int) \<times> process \<times> os" where
  "thread_id p w =
     (case cached_thread_id p of
        Some t \<Rightarrow> (Inr t, p, w)
      | None \<Rightarrow>
          (let (h, p1, w1) = window_handle p w;
               (r, w2) = os_call (GetWindowThreadProcessId h) w1
           in case r of
                Some c \<Rightarrow> (Inl (OSError c), p1, w2)
              | None \<Rightarrow>
                  (Inr (thread_of w2 h), p1\<lparr>cached_thread_id := Some (thread_of w2 h)\<rparr>, w2)))"

section \<open>\<open>Process.focus\<close>\<close>

text \<open>
  The body of the \<open>try\<close> of lines 92 to 99: the key press, \<open>AttachThreadInput\<close> with
  the saved thread id and the window's thread, \<open>SetForegroundWindow\<close> on the window.
  The result is the exception raised, if any.
\<close>

definition focus_attempt :: "process \<Rightarrow> os \<Rightarrow> error option \<times> process \<times> os" where
  "focus_attempt p w =
     (let (r1, w1) = os_call (PressAndRelease ''alt'') w
      in case r1 of
           Some c \<Rightarrow> (Some (OSError c), p, w1)
         | None \<Rightarrow>
             (case thread_id p w1 of
                (Inl e, p2, w2) \<Rightarrow> (Some e, p2, w2)
              | (Inr t, p2, w2) \<Rightarrow>
                  (case last_window_thread_id p2 of
                     None \<Rightarrow> (Some TypeError, p2, w2)
                   | Some lt \<Rightarrow>
                       (let (r3, w3) = os_call (AttachThreadInput lt t True) w2
                        in case r3 of
                             Some c \<Rightarrow> (Some (OSError c), p2, w3)
                           | None \<Rightarrow>
                               (let (h, p4, w4) = window_handle p2 w3;
                                    (r5, w5) = os_call (SetForegroundWindow (Some h)) w4
                                in case r5 of
                                     Some c \<Rightarrow> (Some (OSError c), p4, w5)
                                   | None \<Rightarrow> (None, p4, w5\<lparr>foreground := h\<rparr>))))))"

text \<open>
  The loop \<open>for _ in range(2)\<close> with its handlers, \<open>k\<close> rounds left: after an attempt
  that raised, \<open>delattr(self, 'window_handle')\<close> removes the cached handle, or raises
  \<open>AttributeError\<close> when none is cached, which leaves \<open>focus\<close> at once; then
  \<open>exc = e\<close> and the sleep. After the last round, \<open>raise exc\<close>.
\<close>

fun focus_loop :: "nat \<Rightarrow> error option \<Rightarrow> process \<Rightarrow> os \<Rightarrow> (error + unit) \<times> process \<times> os" where
  "focus_loop 0 exc p w =
     (case exc of Some e \<Rightarrow> (Inl e, p, w) | None \<Rightarrow> (Inl TypeError, p, w))"
| "focus_loop (Suc k) exc p w =
     (case focus_attempt p w of
        (None, p', w') \<Rightarrow> (Inr (), p', w')
      | (Some e, p', w') \<Rightarrow>
          (case cached_window_handle p' of
             None \<Rightarrow> (Inl (AttributeError ''window_handle''), p', w')
           | Some h \<Rightarrow>
               focus_loop k (Some e) (p'\<lparr>cached_window_handle := None\<rparr>)
                 (w'\<lparr>calls := calls w' @ [Sleep]\<rparr>)))"

definition focus :: "process \<Rightarrow> os \<Rightarrow> (error + unit) \<times> process \<times> os" where
  "focus p w =
     (let p1 = p\<lparr>last_window_handle := Some (foreground w),
                 last_window_thread_id := Some (current_thread w)\<rparr>;
          (h, p2, w2) = window_handle p1 w
      in if last_window_handle p2 \<noteq> Some h then focus_loop 2 None p2 w2
         else (Inr (), p2, w2))"

section \<open>\<open>Process.focus_back_to_last_window\<close>\<close>

text \<open>
  Lines 113 to 122: the key press and \<open>AttachThreadInput(..., False)\<close> stand before the
  \<open>try\<close>; only \<open>SetForegroundWindow\<close> is inside it, and its handler passes.
\<close>

definition focus_back_to_last_window :: "process \<Rightarrow> os \<Rightarrow> (error + unit) \<times> process \<times> os" where
  "focus_back_to_last_window p w =
     (let (h, p1, w1) = window_handle p w
      in if last_window_handle p1 \<noteq> Some h then
           (let (r2, w2) = os_call (PressAndRelease ''alt'') w1
            in case r2 of
                 Some c \<Rightarrow> (Inl (OSError c), p1, w2)
               | None \<Rightarrow>
                   (case thread_id p1 w2 of
                      (Inl e, p3, w3) \<Rightarrow> (Inl e, p3, w3)
                    | (Inr t, p3, w3) \<Rightarrow>
                        (case last_window_thread_id p3 of
                           None \<Rightarrow> (Inl TypeError, p3, w3)
                         | Some lt \<Rightarrow>
                             (let (r4, w4) = os_call (AttachThreadInput lt t False) w3
                              in case r4 of
                                   Some c \<Rightarrow> (Inl (OSError c), p3, w4)
                                 | None \<Rightarrow>
                                     (let (r5, w5) = os_call (SetForegroundWindow (last_window_handle p3)) w4
                                      in case (r5, last_window_handle p3) of
                                           (None, Some lh) \<Rightarrow> (Inr (), p3, w5\<lparr>foreground := lh\<rparr>)
                                         | _ \<Rightarrow> (Inr (), p3, w5))))))
         else (Inr (), p1, w1))"

section \<open>Example inputs\<close>

text \<open>
  A memory with two mapped words, as in the two-step scenario of the specification
  (\<open>read_memory(base + 0x10, [0x18, "0x4"])\<close> with \<open>base = 0x1000\<close>), and a memory in
  which every read fails.
\<close>

definition scripted_memory :: memory where
  "scripted_memory a n =
     (if a = 0x1010 \<and> n = 4 then Some 0x2000
      else if a = 0x2018 \<and> n = 4 then Some 0x3000
      else None)"




text \<open>
  A desktop on which window \<open>100\<close>, owned by thread \<open>7\<close>, is in the foreground, the
  calling thread is \<open>1\<close>, and the window titled \<open>Game Window\<close> is \<open>200\<close>, owned by
  thread \<open>9\<close>; the process object as \<open>get_by_name\<close> builds it, and as it is after a
  \<open>focus()\<close> that went through.
\<close>

definition desktop :: os where
  "desktop =
     \<lparr>foreground = 100, current_thread = 1,
      window_of = (\<lambda>title. if title = ''Game Window'' then 200 else 0),
      thread_of = (\<lambda>h. if h = 200 then 9 else 7),
      outcomes = [], calls = []\<rparr>"

definition game_process :: process where
  "game_process = init_process 1234 ''game'' ''Game Window'' 0x400000"

definition focused_process :: process where
  "focused_process =
     game_process\<lparr>last_window_handle := Some 100, last_window_thread_id := Some 1,
                  cached_window_handle := Some 200, cached_thread_id := Some 9\<rparr>"

definition game_in_foreground :: os where
  "game_in_foreground = desktop\<lparr>foreground := 200\<rparr>"

text \<open>
  The same desktop with failures: \<open>AttachThreadInput\<close> raises error \<open>5\<close> in both
  attempts of \<open>focus\<close> (the third and the fifth call that can raise);
  \<open>SetForegroundWindow\<close> raises in both attempts (the fourth and the seventh call); the
  key press raises; the detaching \<open>AttachThreadInput\<close> raises; the last
  \<open>SetForegroundWindow\<close> of the restore raises.
\<close>

definition attach_denied :: os where
  "attach_denied = desktop\<lparr>outcomes := [None, None, Some 5, None, Some 5]\<rparr>"

definition set_foreground_denied :: os where
  "set_foreground_denied = desktop\<lparr>outcomes := [None, None, None, Some 5, None, None, Some 6]\<rparr>"

definition keypress_fails :: os where
  "keypress_fails = desktop\<lparr>foreground := 200, outcomes := [Some 5]\<rparr>"

definition detach_fails :: os where
  "detach_fails = desktop\<lparr>foreground := 200, outcomes := [None, Some 87]\<rparr>"

definition restore_fails :: os where
  "restore_fails = desktop\<lparr>foreground := 200, outcomes := [None, None, Some 5]\<rparr>"

definition scripted_chain :: "offset list" where
  "scripted_chain = [IntOffset 0x18, StrOffset ''0x4'']"


section \<open>Properties of \<open>read_memory\<close>\<close>




lemma int_base16_0x4: "int_base16 ''0x4'' = Some 4"
  by (simp add: int_base16_def strip_sign_def strip_prefix16_def py_isspace_def hex_digit_def)


text \<open>The scripted two-step scenario, computed: two reads, at \<open>0x1010\<close> and \<open>0x2018\<close>.\<close>

lemma read_memory_scripted:
  "read_memory scripted_memory 0x1010 (Some scripted_chain) False =
     (Inr (0x3004, 0x3000), [0x1010, 0x2018])"
  by (simp add: read_memory_def scripted_chain_def to_int_def int_base16_0x4 sizeof_data_def
      ReadProcessMemory_def scripted_memory_def Let_def)

text \<open>Chains whose offsets convert to the same values behave the same.\<close>

lemma read_chain_cong:
  "map to_int offs = map to_int offs' \<Longrightarrow>
   read_chain mem n offs cur data reads = read_chain mem n offs' cur data reads"
proof (induction offs arbitrary: offs' cur data reads)
  case Nil
  then show ?case by simp
next
  case (Cons off offs)
  then obtain off' offs'' where "offs' = off' # offs''" "to_int off = to_int off'"
    "map to_int offs = map to_int offs''"
    by (cases offs') auto
  with Cons.IH [of offs''] show ?case
    by (simp add: Let_def split: sum.splits)
qed

lemma read_memory_cong:
  assumes "map to_int offs = map to_int offs'"
  shows "read_memory mem address (Some offs) byte = read_memory mem address (Some offs') byte"
proof -
  from assms have "length offs = length offs'" by (rule map_eq_imp_length_eq)
  then have "(offs = []) = (offs' = [])" by auto
  then show ?thesis
    using read_chain_cong [OF assms, of mem "sizeof_data byte" address 0 "[]"]
    by (cases offs; cases offs') (simp_all add: read_memory_def Let_def)
qed

lemma int_base16_0x10: "int_base16 ''0x10'' = Some 16"
  by (simp add: int_base16_def strip_sign_def strip_prefix16_def py_isspace_def hex_digit_def)

lemma int_base16_1f: "int_base16 ''1F'' = Some 31"
  by (simp add: int_base16_def strip_sign_def strip_prefix16_def py_isspace_def hex_digit_def)

text \<open>
  C3. At every position of a chain (after any offsets \<open>pre\<close>, before any offsets
  \<open>post\<close>) and from every starting address, the integer offset \<open>16\<close> and the string
  offset \<open>"0x10"\<close> give the same result of \<open>read_memory\<close>, addresses read included; and
  so do a string offset \<open>s\<close> and the integer \<open>k\<close> whenever \<open>int(s, 16)\<close> is \<open>k\<close>.
\<close>

theorem read_memory_hex_string_offset:
  "read_memory mem address (Some (pre @ StrOffset ''0x10'' # post)) byte =
     read_memory mem address (Some (pre @ IntOffset 16 # post)) byte \<and>
   (int_base16 s = Some k \<longrightarrow>
      read_memory mem address (Some (pre @ StrOffset s # post)) byte =
        read_memory mem address (Some (pre @ IntOffset k # post)) byte)"
proof (intro conjI impI)
  have "to_int (StrOffset ''0x10'') = to_int (IntOffset 16)"
    by (simp add: to_int_def int_base16_0x10)
  then show "read_memory mem address (Some (pre @ StrOffset ''0x10'' # post)) byte =
     read_memory mem address (Some (pre @ IntOffset 16 # post)) byte"
    by (intro read_memory_cong) simp
next
  assume "int_base16 s = Some k"
  then have "to_int (StrOffset s) = to_int (IntOffset k)"
    by (simp add: to_int_def)
  then show "read_memory mem address (Some (pre @ StrOffset s # post)) byte =
        read_memory mem address (Some (pre @ IntOffset k # post)) byte"
    by (intro read_memory_cong) simp
qed

theorem read_memory_hex_string_offset_witness:
  "int_base16 ''1F'' = Some 31 \<and>
   read_memory scripted_memory 0x1010 (Some ([IntOffset 0x18] @ StrOffset ''1F'' # [])) False =
     read_memory scripted_memory 0x1010 (Some ([IntOffset 0x18] @ IntOffset 31 # [])) False"
  using read_memory_hex_string_offset
          [where mem = scripted_memory and address = "0x1010" and pre = "[IntOffset 0x18]"
             and post = "[]" and byte = False and s = "''1F''" and k = 31]
        int_base16_1f
  by blast





section \<open>Properties of \<open>get_by_name\<close>\<close>





















section \<open>Properties of \<open>kill_by_name\<close>\<close>




section \<open>Properties of \<open>focus\<close> and \<open>focus_back_to_last_window\<close>\<close>

text \<open>
  C6. When the window of the process is already the foreground window, \<open>focus()\<close>
  returns without a key press, without \<open>AttachThreadInput\<close> and without
  \<open>SetForegroundWindow\<close>: the only call it may make is the \<open>FindWindow\<close> that looks
  the window up when no handle is cached; the foreground window stays what it was; and a
  second \<open>focus()\<close> right after changes nothing at all.
\<close>

theorem focus_already_foreground:
  assumes "fst (window_handle p w) = foreground w"
  shows "\<exists>p' w'. focus p w = (Inr (), p', w') \<and>
           foreground w' = foreground w \<and> outcomes w' = outcomes w \<and>
           calls w' = calls w @ (if cached_window_handle p = None then [FindWindow (window_name p)] else []) \<and>
           focus p' w' = (Inr (), p', w')"
proof (cases "cached_window_handle p")
  case None
  with assms have fg: "window_of w (window_name p) = foreground w"
    by (simp add: window_handle_def Let_def)
  show ?thesis
    using None fg by (simp add: focus_def window_handle_def Let_def)
next
  case (Some h)
  with assms have fg: "h = foreground w"
    by (simp add: window_handle_def)
  show ?thesis
    using Some fg by (simp add: focus_def window_handle_def)
qed

theorem focus_already_foreground_witness:
  "fst (window_handle focused_process game_in_foreground) = foreground game_in_foreground \<and>
   (\<exists>p' w'. focus focused_process game_in_foreground = (Inr (), p', w') \<and>
           foreground w' = foreground game_in_foreground \<and>
           outcomes w' = outcomes game_in_foreground \<and>
           calls w' = calls game_in_foreground @
             (if cached_window_handle focused_process = None
              then [FindWindow (window_name focused_process)] else []) \<and>
           focus p' w' = (Inr (), p', w'))"
proof -
  have h: "fst (window_handle focused_process game_in_foreground) = foreground game_in_foreground"
    by (simp add: window_handle_def focused_process_def game_in_foreground_def desktop_def)
  from focus_already_foreground [OF h] h show ?thesis by blast
qed

text \<open>A \<open>focus()\<close> in which nothing fails: one attempt, and the game window is in front.\<close>

lemma focus_succeeds:
  "focus game_process desktop =
     (Inr (), focused_process,
      desktop\<lparr>foreground := 200, calls := [FindWindow ''Game Window'', PressAndRelease ''alt'',
                  GetWindowThreadProcessId 200, AttachThreadInput 1 9 True,
                  SetForegroundWindow (Some 200)]\<rparr>)"
  by (simp add: focus_def focused_process_def game_process_def init_process_def desktop_def window_handle_def thread_id_def focus_attempt_def os_call_def numeral_2_eq_2)

text \<open>
  When \<open>SetForegroundWindow\<close> raises in both attempts, the handle is looked up again
  for the second attempt and the error of the second attempt leaves \<open>focus()\<close>.
\<close>

lemma focus_set_foreground_denied:
  "focus game_process set_foreground_denied =
     (Inl (OSError 6),
      game_process\<lparr>last_window_handle := Some 100, last_window_thread_id := Some 1,
                   cached_window_handle := None, cached_thread_id := Some 9\<rparr>,
      desktop\<lparr>calls := [FindWindow ''Game Window'', PressAndRelease ''alt'',
                  GetWindowThreadProcessId 200, AttachThreadInput 1 9 True,
                  SetForegroundWindow (Some 200), Sleep, PressAndRelease ''alt'',
                  AttachThreadInput 1 9 True, FindWindow ''Game Window'',
                  SetForegroundWindow (Some 200), Sleep]\<rparr>)"
  by (simp add: focus_def game_process_def init_process_def set_foreground_denied_def desktop_def window_handle_def thread_id_def focus_attempt_def os_call_def numeral_2_eq_2)

text \<open>
  C7 at a failing input. \<open>AttachThreadInput\<close> raises error \<open>5\<close> in both attempts. After
  the first, the handler removes the cached window handle. The second attempt does not
  read \<open>window_handle\<close> before it fails (the thread id is cached), so the
  \<open>delattr\<close> of the handler raises \<open>AttributeError\<close>, and that is what leaves
  \<open>focus()\<close>, not the error \<open>5\<close> of the operating system.
\<close>

theorem focus_retry_attribute_error:
  "focus game_process attach_denied =
     (Inl (AttributeError ''window_handle''),
      game_process\<lparr>last_window_handle := Some 100, last_window_thread_id := Some 1,
                   cached_window_handle := None, cached_thread_id := Some 9\<rparr>,
      desktop\<lparr>calls := [FindWindow ''Game Window'', PressAndRelease ''alt'',
                  GetWindowThreadProcessId 200, AttachThreadInput 1 9 True, Sleep,
                  PressAndRelease ''alt'', AttachThreadInput 1 9 True]\<rparr>)"
  by (simp add: focus_def game_process_def init_process_def attach_denied_def desktop_def window_handle_def thread_id_def focus_attempt_def os_call_def numeral_2_eq_2)

text \<open>
  C8, as the code has it. When a snapshot is there and the key press, the lookup of the
  window's thread (when it is not cached) and the detaching \<open>AttachThreadInput\<close> return,
  \<open>focus_back_to_last_window()\<close> returns, whatever \<open>SetForegroundWindow\<close> on the
  snapshot window does.
\<close>

theorem focus_back_set_foreground_failure_swallowed:
  assumes "last_window_thread_id p \<noteq> None"
    and "list_all (\<lambda>r. r = None) (take (if cached_thread_id p = None then 3 else 2) (outcomes w))"
  shows "fst (focus_back_to_last_window p w) = Inr ()"
  using assms
  by (auto simp: focus_back_to_last_window_def window_handle_def thread_id_def os_call_def Let_def
      split: option.splits list.splits prod.splits if_splits)

theorem focus_back_set_foreground_failure_swallowed_witness:
  "last_window_thread_id focused_process \<noteq> None \<and>
   list_all (\<lambda>r. r = None)
     (take (if cached_thread_id focused_process = None then 3 else 2) (outcomes restore_fails)) \<and>
   outcomes restore_fails = [None, None, Some 5] \<and>
   fst (focus_back_to_last_window focused_process restore_fails) = Inr ()"
proof -
  have h1: "last_window_thread_id focused_process \<noteq> None"
    by (simp add: focused_process_def)
  have h2: "list_all (\<lambda>r. r = None)
     (take (if cached_thread_id focused_process = None then 3 else 2) (outcomes restore_fails))"
    by (simp add: focused_process_def restore_fails_def desktop_def)
  have h3: "outcomes restore_fails = [None, None, Some 5]"
    by (simp add: restore_fails_def)
  from focus_back_set_foreground_failure_swallowed [OF h1 h2] h1 h2 h3 show ?thesis by blast
qed

text \<open>
  C8, as stated, fails: an error of the key press and an error of the detaching
  \<open>AttachThreadInput\<close> leave \<open>focus_back_to_last_window()\<close>.
\<close>

theorem focus_back_counterexample:
  "fst (focus_back_to_last_window focused_process keypress_fails) = Inl (OSError 5) \<and>
   fst (focus_back_to_last_window focused_process detach_fails) = Inl (OSError 87)"
  by (simp add: focus_back_to_last_window_def focused_process_def game_process_def init_process_def keypress_fails_def detach_fails_def desktop_def window_handle_def thread_id_def os_call_def)

text \<open>The attributes of the snapshot are set once, at the start of \<open>focus()\<close>.\<close>

lemma window_handle_snapshot:
  "window_handle p w = (h, p', w') \<Longrightarrow>
   last_window_handle p' = last_window_handle p \<and>
   last_window_thread_id p' = last_window_thread_id p"
  by (auto simp: window_handle_def Let_def split: option.splits)

lemma thread_id_snapshot:
  "thread_id p w = (r, p', w') \<Longrightarrow>
   last_window_handle p' = last_window_handle p \<and>
   last_window_thread_id p' = last_window_thread_id p"
  by (auto simp: thread_id_def window_handle_def os_call_def Let_def
      split: option.splits list.splits prod.splits)

lemma focus_attempt_snapshot:
  "focus_attempt p w = (r, p', w') \<Longrightarrow>
   last_window_handle p' = last_window_handle p \<and>
   last_window_thread_id p' = last_window_thread_id p"
  unfolding focus_attempt_def
  by (auto simp: Let_def os_call_def
      split: option.splits list.splits prod.splits sum.splits
      dest!: thread_id_snapshot window_handle_snapshot)

lemma focus_loop_snapshot:
  "focus_loop k exc p w = (r, p', w') \<Longrightarrow>
   last_window_handle p' = last_window_handle p \<and>
   last_window_thread_id p' = last_window_thread_id p"
proof (induction k arbitrary: exc p w)
  case 0
  then show ?case by (auto split: option.splits)
next
  case (Suc k)
  obtain r1 p1 w1 where att: "focus_attempt p w = (r1, p1, w1)" by (cases "focus_attempt p w") auto
  note snap = focus_attempt_snapshot [OF att]
  show ?case
  proof (cases r1)
    case None
    with Suc.prems att snap show ?thesis by simp
  next
    case (Some e)
    show ?thesis
    proof (cases "cached_window_handle p1")
      case None
      with Suc.prems att Some snap show ?thesis by simp
    next
      case h: (Some h)
      with Suc.prems att Some have
        "focus_loop k (Some e) (p1\<lparr>cached_window_handle := None\<rparr>) (w1\<lparr>calls := calls w1 @ [Sleep]\<rparr>) = (r, p', w')"
        by simp
      from Suc.IH [OF this] snap show ?thesis by simp
    qed
  qed
qed

text \<open>
  C9, as the code has it. After every \<open>focus()\<close>, however it ends, the snapshot is the
  pair of the window that was in the foreground when it began and the id of the calling
  thread; and \<open>focus_back_to_last_window()\<close> uses this pair: when nothing fails and the
  snapshot window is not the window of the process, it detaches with the snapshot thread
  id and sets the snapshot window as foreground window.
\<close>

theorem focus_snapshot:
  "last_window_handle (fst (snd (focus p w))) = Some (foreground w) \<and>
   last_window_thread_id (fst (snd (focus p w))) = Some (current_thread w) \<and>
   (last_window_handle p = Some lh \<and> last_window_thread_id p = Some lt \<and>
    cached_window_handle p = Some h \<and> cached_thread_id p = Some t \<and> lh \<noteq> h \<and>
    outcomes w = [] \<longrightarrow>
      focus_back_to_last_window p w =
        (Inr (), p,
         w\<lparr>foreground := lh,
           calls := calls w @ [PressAndRelease ''alt'', AttachThreadInput lt t False,
                               SetForegroundWindow (Some lh)]\<rparr>))"
proof (intro conjI impI)
  define p1 where "p1 = p\<lparr>last_window_handle := Some (foreground w),
                 last_window_thread_id := Some (current_thread w)\<rparr>"
  obtain h' p2 w2 where wh: "window_handle p1 w = (h', p2, w2)"
    by (cases "window_handle p1 w") auto
  from window_handle_snapshot [OF wh] have p2: "last_window_handle p2 = Some (foreground w)"
    "last_window_thread_id p2 = Some (current_thread w)"
    by (simp_all add: p1_def)
  obtain r p' w' where f: "focus p w = (r, p', w')" by (cases "focus p w") auto
  have "last_window_handle p' = Some (foreground w) \<and>
        last_window_thread_id p' = Some (current_thread w)"
  proof (cases "last_window_handle p2 \<noteq> Some h'")
    case True
    with f wh have "focus_loop 2 None p2 w2 = (r, p', w')"
      by (simp add: focus_def p1_def [symmetric])
    from focus_loop_snapshot [OF this] p2 show ?thesis by simp
  next
    case False
    with f wh have "p' = p2" by (simp add: focus_def p1_def [symmetric])
    with p2 show ?thesis by simp
  qed
  with f show "last_window_handle (fst (snd (focus p w))) = Some (foreground w)"
    and "last_window_thread_id (fst (snd (focus p w))) = Some (current_thread w)"
    by simp_all
next
  assume "last_window_handle p = Some lh \<and> last_window_thread_id p = Some lt \<and>
    cached_window_handle p = Some h \<and> cached_thread_id p = Some t \<and> lh \<noteq> h \<and>
    outcomes w = []"
  then show "focus_back_to_last_window p w =
        (Inr (), p,
         w\<lparr>foreground := lh,
           calls := calls w @ [PressAndRelease ''alt'', AttachThreadInput lt t False,
                               SetForegroundWindow (Some lh)]\<rparr>)"
    by (simp add: focus_back_to_last_window_def window_handle_def thread_id_def os_call_def)
qed

theorem focus_snapshot_witness:
  "last_window_handle focused_process = Some 100 \<and>
   last_window_thread_id focused_process = Some 1 \<and>
   cached_window_handle focused_process = Some 200 \<and>
   cached_thread_id focused_process = Some 9 \<and> (100::int) \<noteq> 200 \<and>
   outcomes game_in_foreground = [] \<and>
   focus_back_to_last_window focused_process game_in_foreground =
     (Inr (), focused_process,
      game_in_foreground\<lparr>foreground := 100,
        calls := calls game_in_foreground @
          [PressAndRelease ''alt'', AttachThreadInput 1 9 False, SetForegroundWindow (Some 100)]\<rparr>)"
proof -
  have h: "last_window_handle focused_process = Some 100 \<and>
   last_window_thread_id focused_process = Some 1 \<and>
   cached_window_handle focused_process = Some 200 \<and>
   cached_thread_id focused_process = Some 9 \<and> (100::int) \<noteq> 200 \<and>
   outcomes game_in_foreground = []"
    by (simp add: focused_process_def game_in_foreground_def desktop_def)
  from focus_snapshot [where p = focused_process and w = game_in_foreground and lh = 100
      and lt = 1 and h = 200 and t = 9] h
  show ?thesis by blast
qed

text \<open>
  C9, as stated, fails: on \<open>desktop\<close> the foreground window is owned by thread \<open>7\<close>,
  and the thread id saved by \<open>focus()\<close> is \<open>1\<close>, that of the calling thread.
\<close>

theorem focus_snapshot_counterexample:
  "last_window_thread_id (fst (snd (focus game_process desktop))) = Some 1 \<and>
   thread_of desktop (foreground desktop) = 7"
  by (simp add: focus_succeeds) (simp add: focused_process_def desktop_def)

end
